theory Spec2Isabelle
  imports Complex_Main "HOL-Library.Sublist" "HOL-Library.Log_Nat"
begin

section \<open>The price recorder \<^verbatim>\<open>fetch_bitcoin_price.py\<close>\<close>

text \<open>
  The script is a straight line of calls into three libraries (requests, pandas,
  psycopg2) and a PostgreSQL server. The embedding keeps the script as it is written
  (one bind per source line) and makes everything outside it explicit:
  \<^item> what the outside world answers is an \<open>env\<close>: the outcome of the HTTP request, the
    reading of the wall clock, how the server reads timestamps and strings, and for
    every operation on the database whether the library or the server fails there;
  \<^item> what the script changes is a \<open>world\<close>: the committed content of the database, the
    view of the open transaction, the two output streams and the list of operations
    attempted so far;
  \<^item> an exception is a value \<open>Inl e\<close>; nothing in the script catches one.
\<close>

subsection \<open>Python values\<close>

text \<open>
  A Python float is an IEEE double, and so is a cell of a PostgreSQL column of type
  \<^verbatim>\<open>FLOAT\<close>. A finite double is given by the rational it stands for (so \<open>-0.0\<close> is not
  told apart from \<open>0.0\<close>); the script does no arithmetic on one.
\<close>

datatype double = Finite rat | PosInf | NegInf | NaN

text \<open>
  The value of \<^verbatim>\<open>response.json()\<close>. A dict is an association list read with
  \<open>map_of\<close>; the dict of a parsed JSON object has no key twice.
\<close>

datatype json =
    JNull
  | JBool bool
  | JInt int
  | JFloat double
  | JStr string
  | JList "json list"
  | JDict "(string \<times> json) list"

text \<open>
  A pandas \<^verbatim>\<open>Timestamp\<close>: the wall-clock reading in nanoseconds and the attached time
  zone, \<open>None\<close> for a naive timestamp.
\<close>

record timestamp =
  wall_ns :: int
  tzinfo :: "string option"

text \<open>An object handed to psycopg2 as a query parameter.\<close>

datatype pyobj = PyTimestamp timestamp | PyJson "json"

datatype exn =
    RequestException
  | JSONDecodeError
  | KeyError string
  | TypeError
  | OperationalError
  | ProgrammingError
  | DuplicateTable string
  | UndefinedTable string
  | UndefinedColumn
  | InvalidColumnReference
  | DatatypeMismatch
  | InvalidTextRepresentation
  | NumericValueOutOfRange
  | NotNullViolation
  | UniqueViolation

text \<open>\<^verbatim>\<open>obj[key]\<close> with a string key: only a dict has string keys.\<close>

fun getitem :: "json \<Rightarrow> string \<Rightarrow> exn + json" where
  "getitem (JDict kvs) k = (case map_of kvs k of None \<Rightarrow> Inl (KeyError k) | Some v \<Rightarrow> Inr v)"
| "getitem JNull k = Inl TypeError"
| "getitem (JBool b) k = Inl TypeError"
| "getitem (JInt i) k = Inl TypeError"
| "getitem (JFloat x) k = Inl TypeError"
| "getitem (JStr s) k = Inl TypeError"
| "getitem (JList xs) k = Inl TypeError"

subsection \<open>The database\<close>

datatype sqltype = TIMESTAMPTZ | FLOAT

record column =
  col_name :: string
  col_type :: sqltype
  primary_key :: bool

text \<open>
  A cell of a table: NULL, a double, or an instant, counted in microseconds from the
  epoch in UTC, which is what a \<^verbatim>\<open>TIMESTAMPTZ\<close> column keeps.
\<close>

datatype cell = Null | Float8 double | Timestamptz int

text \<open>A row gives the columns it has a value for; a column it leaves out is NULL.\<close>

type_synonym row = "(string \<times> cell) list"

record table =
  columns :: "column list"
  rows :: "row list"

type_synonym database = "string \<rightharpoonup> table"

text \<open>
  What psycopg2 writes into the statement for a parameter: \<^verbatim>\<open>NULL\<close>, \<^verbatim>\<open>true\<close>, digits,
  the \<^verbatim>\<open>repr\<close> of a float, a quoted string of no type yet, a timestamp, an array.
\<close>

datatype literal =
    Lit_null
  | Lit_bool bool
  | Lit_int int
  | Lit_float double
  | Lit_text string
  | Lit_timestamp timestamp
  | Lit_array "literal list"

text \<open>The results of a list of steps, or the first error among them.\<close>

fun collect :: "(exn + 'a) list \<Rightarrow> exn + 'a list" where
  "collect [] = Inr []"
| "collect (Inl e # rs) = Inl e"
| "collect (Inr a # rs) = (case collect rs of Inl e \<Rightarrow> Inl e | Inr as \<Rightarrow> Inr (a # as))"

text \<open>
  The adaptation of a parameter, on the side of the client. A dict has no adapter; a
  list is adapted element by element.
\<close>

fun adapt_json :: "json \<Rightarrow> exn + literal" where
  "adapt_json JNull = Inr Lit_null"
| "adapt_json (JBool b) = Inr (Lit_bool b)"
| "adapt_json (JInt i) = Inr (Lit_int i)"
| "adapt_json (JFloat x) = Inr (Lit_float x)"
| "adapt_json (JStr s) = Inr (Lit_text s)"
| "adapt_json (JList xs) =
     (case collect (map adapt_json xs) of Inl e \<Rightarrow> Inl e | Inr ls \<Rightarrow> Inr (Lit_array ls))"
| "adapt_json (JDict kvs) = Inl ProgrammingError"

fun adapt :: "pyobj \<Rightarrow> exn + literal" where
  "adapt (PyTimestamp ts) = Inr (Lit_timestamp ts)"
| "adapt (PyJson j) = adapt_json j"

text \<open>
  What of the server is not in the repository: how it reads a timestamp as an instant
  (for a naive one, zone \<open>None\<close>, in the time zone of the session; always to the
  microsecond), and how it reads a string that is given for a double or for an instant.
\<close>

record server =
  utc_of :: "string option \<Rightarrow> int \<Rightarrow> int"
  float8_in :: "string \<Rightarrow> double option"
  timestamptz_in :: "string \<Rightarrow> int option"

text \<open>
  The double nearest to an integer, ties to the even mantissa: an integer of more than
  53 bits loses its low bits. The result is given as the integer it stands for.
\<close>

definition nearest_double :: "int \<Rightarrow> int" where
  "nearest_double i =
     (let a = \<bar>i\<bar>;
          u = 2 ^ nat (bitlen a - 53);
          q = a div u;
          r = a mod u;
          m = (if u < 2 * r \<or> (2 * r = u \<and> odd q) then q + 1 else q)
      in sgn i * (m * u))"

text \<open>The value that a column of the given type takes for a literal, if it takes it.\<close>

fun assign :: "server \<Rightarrow> sqltype \<Rightarrow> literal \<Rightarrow> exn + cell" where
  "assign srv ty Lit_null = Inr Null"
| "assign srv FLOAT (Lit_float x) = Inr (Float8 x)"
| "assign srv FLOAT (Lit_int i) =
     (if \<bar>nearest_double i\<bar> < 2 ^ 1024 then Inr (Float8 (Finite (of_int (nearest_double i))))
      else Inl NumericValueOutOfRange)"
| "assign srv FLOAT (Lit_text s) =
     (case float8_in srv s of None \<Rightarrow> Inl InvalidTextRepresentation | Some x \<Rightarrow> Inr (Float8 x))"
| "assign srv TIMESTAMPTZ (Lit_timestamp ts) =
     Inr (Timestamptz (utc_of srv (tzinfo ts) (wall_ns ts)))"
| "assign srv TIMESTAMPTZ (Lit_text s) =
     (case timestamptz_in srv s of
        None \<Rightarrow> Inl InvalidTextRepresentation
      | Some i \<Rightarrow> Inr (Timestamptz i))"
| "assign srv ty (Lit_array []) = Inl InvalidTextRepresentation"
| "assign srv ty (Lit_array (l # ls)) = Inl DatatypeMismatch"
| "assign srv FLOAT (Lit_bool b) = Inl DatatypeMismatch"
| "assign srv FLOAT (Lit_timestamp ts) = Inl DatatypeMismatch"
| "assign srv TIMESTAMPTZ (Lit_bool b) = Inl DatatypeMismatch"
| "assign srv TIMESTAMPTZ (Lit_int i) = Inl DatatypeMismatch"
| "assign srv TIMESTAMPTZ (Lit_float x) = Inl DatatypeMismatch"

text \<open>
  The two forms of statement the script sends. \<open>Create_table\<close> carries the
  \<^verbatim>\<open>IF NOT EXISTS\<close> flag; \<open>Insert_into\<close> has one \<^verbatim>\<open>%s\<close> placeholder for each named
  column and the column of its \<^verbatim>\<open>ON CONFLICT (c) DO NOTHING\<close> clause, if it has one.
\<close>

datatype stmt =
    Create_table bool string "column list"
  | Insert_into string "string list" "string option"

definition pk_columns :: "table \<Rightarrow> string list" where
  "pk_columns t = map col_name (filter primary_key (columns t))"

definition row_key :: "string list \<Rightarrow> row \<Rightarrow> cell option list" where
  "row_key pk r = map (map_of r) pk"

text \<open>The cell of one named column of an INSERT, by the type the table gives the column.\<close>

definition assign_column :: "server \<Rightarrow> table \<Rightarrow> string \<times> literal \<Rightarrow> exn + string \<times> cell" where
  "assign_column srv t cl =
     (case map_of (map (\<lambda>c. (col_name c, col_type c)) (columns t)) (fst cl) of
        None \<Rightarrow> Inl UndefinedColumn
      | Some ty \<Rightarrow> (case assign srv ty (snd cl) of Inl e \<Rightarrow> Inl e | Inr c \<Rightarrow> Inr (fst cl, c)))"

text \<open>
  One statement against one state of the database, the parameters bound in order: the
  client adapts them, the server types them by the columns and only then looks for a
  row with the same key. Keys are compared as cells, so two timestamps that the server
  reads as one instant are one key.
\<close>

fun exec_sql :: "server \<Rightarrow> stmt \<Rightarrow> pyobj list \<Rightarrow> database \<Rightarrow> exn + database" where
  "exec_sql srv (Create_table if_not_exists name cols) params db =
     (case db name of
        Some t \<Rightarrow> if if_not_exists then Inr db else Inl (DuplicateTable name)
      | None \<Rightarrow> Inr (db(name \<mapsto> \<lparr>columns = cols, rows = []\<rparr>)))"
| "exec_sql srv (Insert_into name cols conflict) params db =
     (if length params \<noteq> length cols then Inl ProgrammingError
      else case collect (map adapt params) of
        Inl e \<Rightarrow> Inl e
      | Inr lits \<Rightarrow>
         (case db name of
            None \<Rightarrow> Inl (UndefinedTable name)
          | Some t \<Rightarrow>
              if \<not> list_all (\<lambda>c. c \<in> set (map col_name (columns t))) cols
              then Inl UndefinedColumn
              else case collect (map (assign_column srv t) (zip cols lits)) of
                Inl e \<Rightarrow> Inl e
              | Inr r \<Rightarrow>
                  if (case conflict of None \<Rightarrow> False | Some c \<Rightarrow> pk_columns t \<noteq> [c])
                  then Inl InvalidColumnReference
                  else
                    let k = row_key (pk_columns t) r in
                    if None \<in> set k \<or> Some Null \<in> set k then Inl NotNullViolation
                    else if k \<in> set (map (row_key (pk_columns t)) (rows t)) then
                      (case conflict of None \<Rightarrow> Inl UniqueViolation | Some c \<Rightarrow> Inr db)
                    else Inr (db(name \<mapsto> t\<lparr>rows := rows t @ [r]\<rparr>))))"

subsection \<open>The outside world\<close>

record db_settings =
  dbname :: string
  user :: string
  password :: string
  host :: string
  port :: nat

text \<open>Every call that leaves the process, in the form it is attempted.\<close>

datatype event =
    Http_get string
  | Json_decode
  | Clock_read
  | Db_connect db_settings
  | Db_cursor
  | Db_execute stmt "pyobj list"
  | Db_commit
  | Cursor_close
  | Conn_close
  | Stdout_write string

text \<open>
  A response of requests: the status line is not looked at by the script, the body is
  what \<^verbatim>\<open>.json()\<close> makes of it.
\<close>

record response =
  status_code :: nat
  decoded :: "exn + json"

record env =
  http_result :: "exn + response"
  wall_clock :: "string option \<Rightarrow> int"
  fault :: "event \<Rightarrow> exn option"
  server :: server
  py_str :: "pyobj \<Rightarrow> string"

record world =
  committed :: "database"
  session :: "database option"
  stdout :: "string list"
  stderr :: "exn list"
  trace :: "event list"

type_synonym 'a prog = "world \<Rightarrow> (exn + 'a) \<times> world"

definition seq :: "'a prog \<Rightarrow> ('a \<Rightarrow> 'b prog) \<Rightarrow> 'b prog" where
  "seq m k w = (case m w of (Inl e, w') \<Rightarrow> (Inl e, w') | (Inr a, w') \<Rightarrow> k a w')"

definition record_event :: "event \<Rightarrow> world \<Rightarrow> world" where
  "record_event ev w = w\<lparr>trace := trace w @ [ev]\<rparr>"

text \<open>A pure expression of the script that may raise.\<close>

definition expr :: "exn + 'a \<Rightarrow> 'a prog" where
  "expr r w = (r, w)"

subsection \<open>The library calls\<close>

definition requests_get :: "env \<Rightarrow> string \<Rightarrow> response prog" where
  "requests_get env url w = (http_result env, record_event (Http_get url) w)"

definition response_json :: "response \<Rightarrow> json prog" where
  "response_json r w = (decoded r, record_event Json_decode w)"

text \<open>
  \<^verbatim>\<open>pd.Timestamp.now(tz)\<close>: the wall clock of the zone \<open>tz\<close>, which stays attached to
  the result; with \<open>None\<close>, the default, the local wall clock and no zone.
\<close>

definition Timestamp_now :: "env \<Rightarrow> string option \<Rightarrow> timestamp prog" where
  "Timestamp_now env tz w = (Inr \<lparr>wall_ns = wall_clock env tz, tzinfo = tz\<rparr>, record_event Clock_read w)"

text \<open>
  psycopg2 opens a transaction with the first statement of a connection and ends it
  only at \<^verbatim>\<open>commit\<close>: the statements work on the view \<open>session\<close>, which starts as the
  committed content and replaces it at the commit.
\<close>

definition psycopg2_connect :: "env \<Rightarrow> db_settings \<Rightarrow> unit prog" where
  "psycopg2_connect env s w =
     (case fault env (Db_connect s) of
        Some e \<Rightarrow> (Inl e, record_event (Db_connect s) w)
      | None \<Rightarrow> (Inr (), (record_event (Db_connect s) w)\<lparr>session := Some (committed w)\<rparr>))"

definition conn_cursor :: "env \<Rightarrow> unit prog" where
  "conn_cursor env w =
     (case fault env Db_cursor of
        Some e \<Rightarrow> (Inl e, record_event Db_cursor w)
      | None \<Rightarrow> (Inr (), record_event Db_cursor w))"

definition cur_execute :: "env \<Rightarrow> stmt \<Rightarrow> pyobj list \<Rightarrow> unit prog" where
  "cur_execute env q params w =
     (case fault env (Db_execute q params) of
        Some e \<Rightarrow> (Inl e, record_event (Db_execute q params) w)
      | None \<Rightarrow>
          (case session w of
             None \<Rightarrow> (Inl OperationalError, record_event (Db_execute q params) w)
           | Some db \<Rightarrow>
               (case exec_sql (server env) q params db of
                  Inl e \<Rightarrow> (Inl e, record_event (Db_execute q params) w)
                | Inr db' \<Rightarrow> (Inr (), (record_event (Db_execute q params) w)\<lparr>session := Some db'\<rparr>))))"

definition conn_commit :: "env \<Rightarrow> unit prog" where
  "conn_commit env w =
     (case fault env Db_commit of
        Some e \<Rightarrow> (Inl e, record_event Db_commit w)
      | None \<Rightarrow>
          (case session w of
             None \<Rightarrow> (Inl OperationalError, record_event Db_commit w)
           | Some db \<Rightarrow> (Inr (), (record_event Db_commit w)\<lparr>committed := db\<rparr>)))"

definition cur_close :: "env \<Rightarrow> unit prog" where
  "cur_close env w =
     (case fault env Cursor_close of
        Some e \<Rightarrow> (Inl e, record_event Cursor_close w)
      | None \<Rightarrow> (Inr (), record_event Cursor_close w))"

definition conn_close :: "env \<Rightarrow> unit prog" where
  "conn_close env w =
     (case fault env Conn_close of
        Some e \<Rightarrow> (Inl e, record_event Conn_close w)
      | None \<Rightarrow> (Inr (), (record_event Conn_close w)\<lparr>session := None\<rparr>))"

definition print :: "env \<Rightarrow> string \<Rightarrow> unit prog" where
  "print env line w =
     (case fault env (Stdout_write line) of
        Some e \<Rightarrow> (Inl e, record_event (Stdout_write line) w)
      | None \<Rightarrow> (Inr (), (record_event (Stdout_write line) w)\<lparr>stdout := stdout w @ [line]\<rparr>))"

subsection \<open>The script\<close>

definition API_URL :: string where
  "API_URL = ''https://api.coingecko.com/api/v3/simple/price?ids=bitcoin&vs_currencies=usd''"

definition DB_SETTINGS :: db_settings where
  "DB_SETTINGS =
     \<lparr>dbname = ''api_data_db'', user = ''api_user'', password = ''------------'',
      host = ''localhost'', port = 5432\<rparr>"

definition bitcoin_price_columns :: "column list" where
  "bitcoin_price_columns =
     [\<lparr>col_name = ''timestamp'', col_type = TIMESTAMPTZ, primary_key = True\<rparr>,
      \<lparr>col_name = ''price_usd'', col_type = FLOAT, primary_key = False\<rparr>]"

definition create_stmt :: stmt where
  "create_stmt = Create_table True ''bitcoin_price'' bitcoin_price_columns"

definition insert_stmt :: stmt where
  "insert_stmt = Insert_into ''bitcoin_price'' [''timestamp'', ''price_usd''] (Some ''timestamp'')"

definition confirmation :: "env \<Rightarrow> json \<Rightarrow> timestamp \<Rightarrow> string" where
  "confirmation env price_usd ts =
     ''Inserted Bitcoin price '' @ py_str env (PyJson price_usd) @ '' USD at ''
       @ py_str env (PyTimestamp ts)"

definition script :: "env \<Rightarrow> unit prog" where
  "script env =
     seq (requests_get env API_URL) (\<lambda>response.
     seq (response_json response) (\<lambda>data.
     seq (expr (getitem data ''bitcoin'')) (\<lambda>bitcoin.
     seq (expr (getitem bitcoin ''usd'')) (\<lambda>price_usd.
     seq (Timestamp_now env None) (\<lambda>ts.
     seq (psycopg2_connect env DB_SETTINGS) (\<lambda>conn.
     seq (conn_cursor env) (\<lambda>cur.
     seq (cur_execute env create_stmt []) (\<lambda>_.
     seq (cur_execute env insert_stmt [PyTimestamp ts, PyJson price_usd]) (\<lambda>_.
     seq (conn_commit env) (\<lambda>_.
     seq (cur_close env) (\<lambda>_.
     seq (conn_close env) (\<lambda>_.
     print env (confirmation env price_usd ts)))))))))))))"

text \<open>
  The interpreter around the script: an exception that reaches the top is written to
  standard error and the process ends with status 1, which also ends the connection
  and with it the open transaction; otherwise the status is 0.
\<close>

definition python_main :: "env \<Rightarrow> world \<Rightarrow> nat \<times> world" where
  "python_main env w =
     (case script env w of
        (Inl e, w') \<Rightarrow> (1, w'\<lparr>session := None, stderr := stderr w' @ [e]\<rparr>)
      | (Inr u, w') \<Rightarrow> (0, w'\<lparr>session := None\<rparr>))"

subsection \<open>Runs\<close>

text \<open>A process starts with nothing written and no connection open.\<close>

definition start :: "database \<Rightarrow> world" where
  "start db = \<lparr>committed = db, session = None, stdout = [], stderr = [], trace = []\<rparr>"

text \<open>The steps of the recorder, and the step that an attempted call belongs to.\<close>

datatype step =
    Fetch
  | Parse
  | Capture_timestamp
  | Connect
  | Open_cursor
  | Ensure_schema
  | Insert
  | Commit
  | Close_cursor
  | Close_connection
  | Print

fun step_of :: "event \<Rightarrow> step" where
  "step_of (Http_get url) = Fetch"
| "step_of Json_decode = Parse"
| "step_of Clock_read = Capture_timestamp"
| "step_of (Db_connect s) = Connect"
| "step_of Db_cursor = Open_cursor"
| "step_of (Db_execute (Create_table b name cols) ps) = Ensure_schema"
| "step_of (Db_execute (Insert_into name cols conflict) ps) = Insert"
| "step_of Db_commit = Commit"
| "step_of Cursor_close = Close_cursor"
| "step_of Conn_close = Close_connection"
| "step_of (Stdout_write line) = Print"

definition step_order :: "step list" where
  "step_order =
     [Fetch, Parse, Capture_timestamp, Connect, Open_cursor, Ensure_schema, Insert, Commit,
      Close_cursor, Close_connection, Print]"

text \<open>The rows of the table the script writes to, none when it does not exist.\<close>

definition price_rows :: "database \<Rightarrow> row list" where
  "price_rows db = (case db ''bitcoin_price'' of None \<Rightarrow> [] | Some t \<Rightarrow> rows t)"

text \<open>The cell of the column \<^verbatim>\<open>timestamp\<close> in each row, \<open>None\<close> for NULL.\<close>

definition timestamps :: "row list \<Rightarrow> cell option list" where
  "timestamps rs = map (\<lambda>row. map_of row ''timestamp'') rs"

text \<open>
  The calls whose failure the environment decides through \<open>fault\<close>; the HTTP request
  and the decoding fail through their results, reading the clock does not fail.
\<close>

fun may_fault :: "event \<Rightarrow> bool" where
  "may_fault (Http_get url) = False"
| "may_fault Json_decode = False"
| "may_fault Clock_read = False"
| "may_fault (Db_connect s) = True"
| "may_fault Db_cursor = True"
| "may_fault (Db_execute q ps) = True"
| "may_fault Db_commit = True"
| "may_fault Cursor_close = True"
| "may_fault Conn_close = True"
| "may_fault (Stdout_write line) = True"

text \<open>A timestamp is aware when a time zone is attached to it.\<close>

definition tz_aware :: "timestamp \<Rightarrow> bool" where
  "tz_aware ts = (tzinfo ts \<noteq> None)"

text \<open>The same statement sent \<open>n\<close> times, stopping at the first error.\<close>

fun exec_times :: "server \<Rightarrow> nat \<Rightarrow> stmt \<Rightarrow> pyobj list \<Rightarrow> database \<Rightarrow> exn + database" where
  "exec_times srv 0 q params db = Inr db"
| "exec_times srv (Suc n) q params db =
     (case exec_sql srv q params db of
        Inl e \<Rightarrow> Inl e
      | Inr db' \<Rightarrow> exec_times srv n q params db')"

text \<open>
  What the column \<^verbatim>\<open>price_usd\<close> of the script's table makes of a price that is bound
  to it, and the instant that its column \<^verbatim>\<open>timestamp\<close> makes of a timestamp.
\<close>

definition price_cell :: "server \<Rightarrow> json \<Rightarrow> exn + cell" where
  "price_cell srv v = (case adapt_json v of Inl e \<Rightarrow> Inl e | Inr l \<Rightarrow> assign srv FLOAT l)"

definition instant :: "server \<Rightarrow> timestamp \<Rightarrow> cell" where
  "instant srv ts = Timestamptz (utc_of srv (tzinfo ts) (wall_ns ts))"

text \<open>A cell holds a JSON value when it is that number, or NULL for \<^verbatim>\<open>null\<close>.\<close>

fun same_value :: "cell \<Rightarrow> json \<Rightarrow> bool" where
  "same_value (Float8 x) (JFloat y) = (x = y)"
| "same_value (Float8 x) (JInt i) = (x = Finite (of_int i))"
| "same_value Null JNull = True"
| "same_value c v = False"

text \<open>The value that line 20 of the script computes from the answer of the API.\<close>

definition price_of :: "env \<Rightarrow> exn + json" where
  "price_of env =
     (case http_result env of
        Inl e \<Rightarrow> Inl e
      | Inr response \<Rightarrow>
          (case decoded response of
             Inl e \<Rightarrow> Inl e
           | Inr data \<Rightarrow>
               (case getitem data ''bitcoin'' of
                  Inl e \<Rightarrow> Inl e
                | Inr bitcoin \<Rightarrow> getitem bitcoin ''usd'')))"

text \<open>The timestamp that line 21 captures, and the parameters that line 40 binds.\<close>

abbreviation captured :: "env \<Rightarrow> timestamp" where
  "captured env \<equiv> \<lparr>wall_ns = wall_clock env None, tzinfo = None\<rparr>"

abbreviation insert_params :: "env \<Rightarrow> json \<Rightarrow> pyobj list" where
  "insert_params env price \<equiv> [PyTimestamp (captured env), PyJson price]"

text \<open>The calls of a run that nothing interrupts, for the price extracted.\<close>

definition planned :: "env \<Rightarrow> json \<Rightarrow> event list" where
  "planned env price =
     [Http_get API_URL, Json_decode, Clock_read, Db_connect DB_SETTINGS, Db_cursor,
      Db_execute create_stmt [], Db_execute insert_stmt (insert_params env price),
      Db_commit, Cursor_close, Conn_close,
      Stdout_write (confirmation env price (captured env))]"

text \<open>The database once the table is there: as it was, or with the new empty table.\<close>

definition ensured :: "database \<Rightarrow> database" where
  "ensured db =
     (case db ''bitcoin_price'' of
        Some t \<Rightarrow> db
      | None \<Rightarrow> db(''bitcoin_price'' \<mapsto> \<lparr>columns = bitcoin_price_columns, rows = []\<rparr>))"

subsection \<open>Example runs\<close>

text \<open>
  Concrete surroundings to run the script in. The quote is 65000.5, the rational
  \<open>130001 / 2\<close>. The clock shows noon of 1 May 2024 and the session of the server is
  in UTC, so that the instant is the reading of the clock, in microseconds.
\<close>

definition quote :: json where
  "quote = JDict [(''bitcoin'', JDict [(''usd'', JFloat (Finite (130001 / 2)))])]"

definition noon :: timestamp where
  "noon = \<lparr>wall_ns = 1714564800000000000, tzinfo = None\<rparr>"

fun example_str :: "pyobj \<Rightarrow> string" where
  "example_str (PyTimestamp ts) = ''2024-05-01 12:00:00''"
| "example_str (PyJson j) = ''65000.5''"

definition no_fault :: "event \<Rightarrow> exn option" where
  "no_fault ev = None"

definition no_number :: "string \<Rightarrow> double option" where
  "no_number s = None"

definition no_instant :: "string \<Rightarrow> int option" where
  "no_instant s = None"

definition microseconds :: "string option \<Rightarrow> int \<Rightarrow> int" where
  "microseconds zone ns = ns div 1000"

definition utc_server :: server where
  "utc_server =
     \<lparr>utc_of = microseconds, float8_in = no_number, timestamptz_in = no_instant\<rparr>"

definition example_env :: env where
  "example_env =
     \<lparr>http_result = Inr \<lparr>status_code = 200, decoded = Inr quote\<rparr>,
      wall_clock = (\<lambda>tz. 1714564800000000000),
      fault = no_fault,
      server = utc_server,
      py_str = example_str\<rparr>"

text \<open>The API quotes an integer of 54 bits.\<close>

definition large_quote :: json where
  "large_quote = JDict [(''bitcoin'', JDict [(''usd'', JInt 9007199254740993)])]"

fun large_str :: "pyobj \<Rightarrow> string" where
  "large_str (PyTimestamp ts) = ''2024-05-01 12:00:00''"
| "large_str (PyJson j) = ''9007199254740993''"

definition large_env :: env where
  "large_env =
     example_env\<lparr>http_result := Inr \<lparr>status_code = 200, decoded = Inr large_quote\<rparr>,
       py_str := large_str\<rparr>"

text \<open>The API answers with an error payload instead of a quote.\<close>

definition rate_limit_message :: "(string \<times> json) list" where
  "rate_limit_message = [(''status'', JDict [(''error_code'', JInt 429)])]"

definition rate_limited_env :: env where
  "rate_limited_env =
     example_env\<lparr>http_result :=
       Inr \<lparr>status_code = 429, decoded = Inr (JDict rate_limit_message)\<rparr>\<rparr>"

text \<open>The server refuses the connection.\<close>

fun database_down :: "event \<Rightarrow> exn option" where
  "database_down (Db_connect s) = Some OperationalError"
| "database_down ev = None"

definition unreachable_env :: env where
  "unreachable_env = example_env\<lparr>fault := database_down\<rparr>"

text \<open>The server refuses the INSERT, after it has accepted the CREATE TABLE.\<close>

fun insert_denied :: "event \<Rightarrow> exn option" where
  "insert_denied (Db_execute (Insert_into name cols conflict) ps) = Some ProgrammingError"
| "insert_denied ev = None"

definition denied_env :: env where
  "denied_env = example_env\<lparr>fault := insert_denied\<rparr>"

text \<open>A database with no table, and one that holds a sample taken at noon already.\<close>

definition no_tables :: database where
  "no_tables = Map.empty"

definition recorded_table :: table where
  "recorded_table =
     \<lparr>columns = bitcoin_price_columns,
      rows = [[(''timestamp'', Timestamptz 1714564800000000),
               (''price_usd'', Float8 (Finite 64000))]]\<rparr>"

definition recorded :: database where
  "recorded = no_tables(''bitcoin_price'' \<mapsto> recorded_table)"

text \<open>The table after the example run on the empty database, and after the large quote.\<close>

definition first_sample :: database where
  "first_sample =
     no_tables(''bitcoin_price'' \<mapsto>
       \<lparr>columns = bitcoin_price_columns,
        rows = [[(''timestamp'', Timestamptz 1714564800000000),
                 (''price_usd'', Float8 (Finite (130001 / 2)))]]\<rparr>)"

definition large_sample :: database where
  "large_sample =
     no_tables(''bitcoin_price'' \<mapsto>
       \<lparr>columns = bitcoin_price_columns,
        rows = [[(''timestamp'', Timestamptz 1714564800000000),
                 (''price_usd'', Float8 (Finite 9007199254740992))]]\<rparr>)"

section \<open>Every run of the script\<close>

text \<open>
  The script has no branch of its own: a run is decided by the first call that fails.
  The lemmas below compute the run for each place of the first failure, and
  \<open>script_cases\<close> says that these are all the runs there are.
\<close>


lemmas prims = seq_def expr_def requests_get_def response_json_def Timestamp_now_def
  psycopg2_connect_def conn_cursor_def cur_execute_def conn_commit_def cur_close_def
  conn_close_def print_def record_event_def

lemma exec_create: "exec_sql srv create_stmt ps db = Inr (ensured db)"
  by (simp add: create_stmt_def ensured_def split: option.splits)

lemma price_ofD:
  assumes "price_of env = Inr price"
  obtains resp data bitcoin where "http_result env = Inr resp" "decoded resp = Inr data"
    "getitem data ''bitcoin'' = Inr bitcoin" "getitem bitcoin ''usd'' = Inr price"
  using assms by (auto simp: price_of_def split: sum.splits)

lemma run_no_price:
  assumes "price_of env = Inl e"
  shows "script env (start db) =
    (Inl e, \<lparr>committed = db, session = None, stdout = [], stderr = [],
       trace = (if isl (http_result env) then [Http_get API_URL]
                else [Http_get API_URL, Json_decode])\<rparr>)"
  using assms
  by (auto simp: price_of_def script_def seq_def expr_def requests_get_def response_json_def
      record_event_def start_def split: sum.splits)

lemma run_connect_fault:
  assumes "price_of env = Inr price" "fault env (Db_connect DB_SETTINGS) = Some e"
  shows "script env (start db) =
    (Inl e, \<lparr>committed = db, session = None, stdout = [], stderr = [],
       trace = take 4 (planned env price)\<rparr>)"
proof -
  from assms(1) obtain resp data bitcoin where "http_result env = Inr resp"
    "decoded resp = Inr data" "getitem data ''bitcoin'' = Inr bitcoin"
    "getitem bitcoin ''usd'' = Inr price"
    by (rule price_ofD)
  with assms(2-) show ?thesis
    by (simp add: script_def prims start_def planned_def)
qed

lemma run_cursor_fault:
  assumes "price_of env = Inr price" "fault env (Db_connect DB_SETTINGS) = None"
    "fault env Db_cursor = Some e"
  shows "script env (start db) =
    (Inl e, \<lparr>committed = db, session = Some db, stdout = [], stderr = [],
       trace = take 5 (planned env price)\<rparr>)"
proof -
  from assms(1) obtain resp data bitcoin where "http_result env = Inr resp"
    "decoded resp = Inr data" "getitem data ''bitcoin'' = Inr bitcoin"
    "getitem bitcoin ''usd'' = Inr price"
    by (rule price_ofD)
  with assms(2-) show ?thesis
    by (simp add: script_def prims start_def planned_def)
qed

lemma run_create_fault:
  assumes "price_of env = Inr price" "fault env (Db_connect DB_SETTINGS) = None"
    "fault env Db_cursor = None" "fault env (Db_execute create_stmt []) = Some e"
  shows "script env (start db) =
    (Inl e, \<lparr>committed = db, session = Some db, stdout = [], stderr = [],
       trace = take 6 (planned env price)\<rparr>)"
proof -
  from assms(1) obtain resp data bitcoin where "http_result env = Inr resp"
    "decoded resp = Inr data" "getitem data ''bitcoin'' = Inr bitcoin"
    "getitem bitcoin ''usd'' = Inr price"
    by (rule price_ofD)
  with assms(2-) show ?thesis
    by (simp add: script_def prims start_def planned_def)
qed

lemma run_insert_fault:
  assumes "price_of env = Inr price" "fault env (Db_connect DB_SETTINGS) = None"
    "fault env Db_cursor = None" "fault env (Db_execute create_stmt []) = None"
    "fault env (Db_execute insert_stmt (insert_params env price)) = Some e"
  shows "script env (start db) =
    (Inl e, \<lparr>committed = db, session = Some (ensured db), stdout = [], stderr = [],
       trace = take 7 (planned env price)\<rparr>)"
proof -
  from assms(1) obtain resp data bitcoin where "http_result env = Inr resp"
    "decoded resp = Inr data" "getitem data ''bitcoin'' = Inr bitcoin"
    "getitem bitcoin ''usd'' = Inr price"
    by (rule price_ofD)
  with assms(2-) show ?thesis
    by (simp add: script_def prims start_def planned_def exec_create)
qed

lemma run_insert_error:
  assumes "price_of env = Inr price" "fault env (Db_connect DB_SETTINGS) = None"
    "fault env Db_cursor = None" "fault env (Db_execute create_stmt []) = None"
    "fault env (Db_execute insert_stmt (insert_params env price)) = None"
    "exec_sql (server env) insert_stmt (insert_params env price) (ensured db) = Inl e"
  shows "script env (start db) =
    (Inl e, \<lparr>committed = db, session = Some (ensured db), stdout = [], stderr = [],
       trace = take 7 (planned env price)\<rparr>)"
proof -
  from assms(1) obtain resp data bitcoin where "http_result env = Inr resp"
    "decoded resp = Inr data" "getitem data ''bitcoin'' = Inr bitcoin"
    "getitem bitcoin ''usd'' = Inr price"
    by (rule price_ofD)
  with assms(2-) show ?thesis
    by (simp add: script_def prims start_def planned_def exec_create)
qed

lemma run_commit_fault:
  assumes "price_of env = Inr price" "fault env (Db_connect DB_SETTINGS) = None"
    "fault env Db_cursor = None" "fault env (Db_execute create_stmt []) = None"
    "fault env (Db_execute insert_stmt (insert_params env price)) = None"
    "exec_sql (server env) insert_stmt (insert_params env price) (ensured db) = Inr db'"
    "fault env Db_commit = Some e"
  shows "script env (start db) =
    (Inl e, \<lparr>committed = db, session = Some db', stdout = [], stderr = [],
       trace = take 8 (planned env price)\<rparr>)"
proof -
  from assms(1) obtain resp data bitcoin where "http_result env = Inr resp"
    "decoded resp = Inr data" "getitem data ''bitcoin'' = Inr bitcoin"
    "getitem bitcoin ''usd'' = Inr price"
    by (rule price_ofD)
  with assms(2-) show ?thesis
    by (simp add: script_def prims start_def planned_def exec_create)
qed

lemma run_cur_close_fault:
  assumes "price_of env = Inr price" "fault env (Db_connect DB_SETTINGS) = None"
    "fault env Db_cursor = None" "fault env (Db_execute create_stmt []) = None"
    "fault env (Db_execute insert_stmt (insert_params env price)) = None"
    "exec_sql (server env) insert_stmt (insert_params env price) (ensured db) = Inr db'"
    "fault env Db_commit = None" "fault env Cursor_close = Some e"
  shows "script env (start db) =
    (Inl e, \<lparr>committed = db', session = Some db', stdout = [], stderr = [],
       trace = take 9 (planned env price)\<rparr>)"
proof -
  from assms(1) obtain resp data bitcoin where "http_result env = Inr resp"
    "decoded resp = Inr data" "getitem data ''bitcoin'' = Inr bitcoin"
    "getitem bitcoin ''usd'' = Inr price"
    by (rule price_ofD)
  with assms(2-) show ?thesis
    by (simp add: script_def prims start_def planned_def exec_create)
qed

lemma run_conn_close_fault:
  assumes "price_of env = Inr price" "fault env (Db_connect DB_SETTINGS) = None"
    "fault env Db_cursor = None" "fault env (Db_execute create_stmt []) = None"
    "fault env (Db_execute insert_stmt (insert_params env price)) = None"
    "exec_sql (server env) insert_stmt (insert_params env price) (ensured db) = Inr db'"
    "fault env Db_commit = None" "fault env Cursor_close = None"
    "fault env Conn_close = Some e"
  shows "script env (start db) =
    (Inl e, \<lparr>committed = db', session = Some db', stdout = [], stderr = [],
       trace = take 10 (planned env price)\<rparr>)"
proof -
  from assms(1) obtain resp data bitcoin where "http_result env = Inr resp"
    "decoded resp = Inr data" "getitem data ''bitcoin'' = Inr bitcoin"
    "getitem bitcoin ''usd'' = Inr price"
    by (rule price_ofD)
  with assms(2-) show ?thesis
    by (simp add: script_def prims start_def planned_def exec_create)
qed

lemma run_print_fault:
  assumes "price_of env = Inr price" "fault env (Db_connect DB_SETTINGS) = None"
    "fault env Db_cursor = None" "fault env (Db_execute create_stmt []) = None"
    "fault env (Db_execute insert_stmt (insert_params env price)) = None"
    "exec_sql (server env) insert_stmt (insert_params env price) (ensured db) = Inr db'"
    "fault env Db_commit = None" "fault env Cursor_close = None"
    "fault env Conn_close = None"
    "fault env (Stdout_write (confirmation env price (captured env))) = Some e"
  shows "script env (start db) =
    (Inl e, \<lparr>committed = db', session = None, stdout = [], stderr = [],
       trace = planned env price\<rparr>)"
proof -
  from assms(1) obtain resp data bitcoin where "http_result env = Inr resp"
    "decoded resp = Inr data" "getitem data ''bitcoin'' = Inr bitcoin"
    "getitem bitcoin ''usd'' = Inr price"
    by (rule price_ofD)
  with assms(2-) show ?thesis
    by (simp add: script_def prims start_def planned_def exec_create)
qed

lemma run_success:
  assumes "price_of env = Inr price" "fault env (Db_connect DB_SETTINGS) = None"
    "fault env Db_cursor = None" "fault env (Db_execute create_stmt []) = None"
    "fault env (Db_execute insert_stmt (insert_params env price)) = None"
    "exec_sql (server env) insert_stmt (insert_params env price) (ensured db) = Inr db'"
    "fault env Db_commit = None" "fault env Cursor_close = None"
    "fault env Conn_close = None"
    "fault env (Stdout_write (confirmation env price (captured env))) = None"
  shows "script env (start db) =
    (Inr (), \<lparr>committed = db', session = None,
       stdout = [confirmation env price (captured env)], stderr = [],
       trace = planned env price\<rparr>)"
proof -
  from assms(1) obtain resp data bitcoin where "http_result env = Inr resp"
    "decoded resp = Inr data" "getitem data ''bitcoin'' = Inr bitcoin"
    "getitem bitcoin ''usd'' = Inr price"
    by (rule price_ofD)
  with assms(2-) show ?thesis
    by (simp add: script_def prims start_def planned_def exec_create)
qed

lemma script_cases [case_names no_price connect_fault cursor_fault create_fault insert_fault
    insert_error commit_fault cur_close_fault conn_close_fault print_fault success]:
  obtains
    (no_price) e where "price_of env = Inl e"
      "script env (start db) =
        (Inl e, \<lparr>committed = db, session = None, stdout = [], stderr = [],
           trace = (if isl (http_result env) then [Http_get API_URL]
                    else [Http_get API_URL, Json_decode])\<rparr>)"
  | (connect_fault) price e where
      "price_of env = Inr price"
      "fault env (Db_connect DB_SETTINGS) = Some e"
      "script env (start db) =
        (Inl e, \<lparr>committed = db, session = None, stdout = [], stderr = [],
         trace = take 4 (planned env price)\<rparr>)"
  | (cursor_fault) price e where
      "price_of env = Inr price"
      "fault env (Db_connect DB_SETTINGS) = None"
      "fault env Db_cursor = Some e"
      "script env (start db) =
        (Inl e, \<lparr>committed = db, session = Some db, stdout = [], stderr = [],
         trace = take 5 (planned env price)\<rparr>)"
  | (create_fault) price e where
      "price_of env = Inr price"
      "fault env (Db_connect DB_SETTINGS) = None"
      "fault env Db_cursor = None"
      "fault env (Db_execute create_stmt []) = Some e"
      "script env (start db) =
        (Inl e, \<lparr>committed = db, session = Some db, stdout = [], stderr = [],
         trace = take 6 (planned env price)\<rparr>)"
  | (insert_fault) price e where
      "price_of env = Inr price"
      "fault env (Db_connect DB_SETTINGS) = None"
      "fault env Db_cursor = None"
      "fault env (Db_execute create_stmt []) = None"
      "fault env (Db_execute insert_stmt (insert_params env price)) = Some e"
      "script env (start db) =
        (Inl e, \<lparr>committed = db, session = Some (ensured db), stdout = [], stderr = [],
         trace = take 7 (planned env price)\<rparr>)"
  | (insert_error) price e where
      "price_of env = Inr price"
      "fault env (Db_connect DB_SETTINGS) = None"
      "fault env Db_cursor = None"
      "fault env (Db_execute create_stmt []) = None"
      "fault env (Db_execute insert_stmt (insert_params env price)) = None"
      "exec_sql (server env) insert_stmt (insert_params env price) (ensured db) = Inl e"
      "script env (start db) =
        (Inl e, \<lparr>committed = db, session = Some (ensured db), stdout = [], stderr = [],
         trace = take 7 (planned env price)\<rparr>)"
  | (commit_fault) price db' e where
      "price_of env = Inr price"
      "fault env (Db_connect DB_SETTINGS) = None"
      "fault env Db_cursor = None"
      "fault env (Db_execute create_stmt []) = None"
      "fault env (Db_execute insert_stmt (insert_params env price)) = None"
      "exec_sql (server env) insert_stmt (insert_params env price) (ensured db) = Inr db'"
      "fault env Db_commit = Some e"
      "script env (start db) =
        (Inl e, \<lparr>committed = db, session = Some db', stdout = [], stderr = [],
         trace = take 8 (planned env price)\<rparr>)"
  | (cur_close_fault) price db' e where
      "price_of env = Inr price"
      "fault env (Db_connect DB_SETTINGS) = None"
      "fault env Db_cursor = None"
      "fault env (Db_execute create_stmt []) = None"
      "fault env (Db_execute insert_stmt (insert_params env price)) = None"
      "exec_sql (server env) insert_stmt (insert_params env price) (ensured db) = Inr db'"
      "fault env Db_commit = None"
      "fault env Cursor_close = Some e"
      "script env (start db) =
        (Inl e, \<lparr>committed = db', session = Some db', stdout = [], stderr = [],
         trace = take 9 (planned env price)\<rparr>)"
  | (conn_close_fault) price db' e where
      "price_of env = Inr price"
      "fault env (Db_connect DB_SETTINGS) = None"
      "fault env Db_cursor = None"
      "fault env (Db_execute create_stmt []) = None"
      "fault env (Db_execute insert_stmt (insert_params env price)) = None"
      "exec_sql (server env) insert_stmt (insert_params env price) (ensured db) = Inr db'"
      "fault env Db_commit = None"
      "fault env Cursor_close = None"
      "fault env Conn_close = Some e"
      "script env (start db) =
        (Inl e, \<lparr>committed = db', session = Some db', stdout = [], stderr = [],
         trace = take 10 (planned env price)\<rparr>)"
  | (print_fault) price db' e where
      "price_of env = Inr price"
      "fault env (Db_connect DB_SETTINGS) = None"
      "fault env Db_cursor = None"
      "fault env (Db_execute create_stmt []) = None"
      "fault env (Db_execute insert_stmt (insert_params env price)) = None"
      "exec_sql (server env) insert_stmt (insert_params env price) (ensured db) = Inr db'"
      "fault env Db_commit = None"
      "fault env Cursor_close = None"
      "fault env Conn_close = None"
      "fault env (Stdout_write (confirmation env price (captured env))) = Some e"
      "script env (start db) =
        (Inl e, \<lparr>committed = db', session = None, stdout = [], stderr = [],
         trace = planned env price\<rparr>)"
  | (success) price db' where
      "price_of env = Inr price"
      "fault env (Db_connect DB_SETTINGS) = None"
      "fault env Db_cursor = None"
      "fault env (Db_execute create_stmt []) = None"
      "fault env (Db_execute insert_stmt (insert_params env price)) = None"
      "exec_sql (server env) insert_stmt (insert_params env price) (ensured db) = Inr db'"
      "fault env Db_commit = None"
      "fault env Cursor_close = None"
      "fault env Conn_close = None"
      "fault env (Stdout_write (confirmation env price (captured env))) = None"
      "script env (start db) =
        (Inr (), \<lparr>committed = db', session = None, stdout = [confirmation env price (captured env)], stderr = [],
         trace = planned env price\<rparr>)"
proof (cases "price_of env")
  case (Inl e)
  from no_price[OF Inl run_no_price[OF Inl]] show ?thesis .
next
  case p: (Inr price)
  show ?thesis
  proof (cases "fault env (Db_connect DB_SETTINGS)")
    case b: (Some e)
    from connect_fault[OF p b run_connect_fault[OF p b]] show ?thesis .
  next
    case f0: None
    show ?thesis
    proof (cases "fault env Db_cursor")
      case b: (Some e)
      from cursor_fault[OF p f0 b run_cursor_fault[OF p f0 b]] show ?thesis .
    next
      case f1: None
      show ?thesis
      proof (cases "fault env (Db_execute create_stmt [])")
        case b: (Some e)
        from create_fault[OF p f0 f1 b run_create_fault[OF p f0 f1 b]] show ?thesis .
      next
        case f2: None
        show ?thesis
        proof (cases "fault env (Db_execute insert_stmt (insert_params env price))")
          case b: (Some e)
          from insert_fault[OF p f0 f1 f2 b run_insert_fault[OF p f0 f1 f2 b]] show ?thesis .
        next
          case f3: None
          show ?thesis
          proof (cases "exec_sql (server env) insert_stmt (insert_params env price) (ensured db)")
            case b: (Inl e)
            from insert_error[OF p f0 f1 f2 f3 b run_insert_error[OF p f0 f1 f2 f3 b]] show ?thesis .
          next
            case f4: (Inr db')
            show ?thesis
            proof (cases "fault env Db_commit")
              case b: (Some e)
              from commit_fault[OF p f0 f1 f2 f3 f4 b run_commit_fault[OF p f0 f1 f2 f3 f4 b]] show ?thesis .
            next
              case f5: None
              show ?thesis
              proof (cases "fault env Cursor_close")
                case b: (Some e)
                from cur_close_fault[OF p f0 f1 f2 f3 f4 f5 b run_cur_close_fault[OF p f0 f1 f2 f3 f4 f5 b]] show ?thesis .
              next
                case f6: None
                show ?thesis
                proof (cases "fault env Conn_close")
                  case b: (Some e)
                  from conn_close_fault[OF p f0 f1 f2 f3 f4 f5 f6 b run_conn_close_fault[OF p f0 f1 f2 f3 f4 f5 f6 b]] show ?thesis .
                next
                  case f7: None
                  show ?thesis
                  proof (cases "fault env (Stdout_write (confirmation env price (captured env)))")
                    case b: (Some e)
                    from print_fault[OF p f0 f1 f2 f3 f4 f5 f6 f7 b run_print_fault[OF p f0 f1 f2 f3 f4 f5 f6 f7 b]] show ?thesis .
                  next
                    case f8: None
                    from success[OF p f0 f1 f2 f3 f4 f5 f6 f7 f8 run_success[OF p f0 f1 f2 f3 f4 f5 f6 f7 f8]] show ?thesis .
                  qed
                qed
              qed
            qed
          qed
        qed
      qed
    qed
  qed
qed

subsection \<open>The two statements\<close>


lemma stmts_differ [simp]: "create_stmt \<noteq> insert_stmt" "insert_stmt \<noteq> create_stmt"
  by (simp_all add: create_stmt_def insert_stmt_def)

lemma step_of_execute [simp]:
  "step_of (Db_execute create_stmt ps) = Ensure_schema"
  "step_of (Db_execute insert_stmt ps) = Insert"
  by (simp_all add: create_stmt_def insert_stmt_def)

lemma price_rows_ensured [simp]: "price_rows (ensured db) = price_rows db"
  by (simp add: price_rows_def ensured_def bitcoin_price_columns_def split: option.splits)

lemma key_conflict:
  "[Some x] \<in> set (map (row_key [''timestamp'']) rs) \<longleftrightarrow> Some x \<in> set (timestamps rs)"
  by (auto simp: row_key_def timestamps_def image_iff)

lemma adapt_params:
  "collect (map adapt [PyTimestamp ts, PyJson v]) =
     (case adapt_json v of Inl e \<Rightarrow> Inl e | Inr l \<Rightarrow> Inr [Lit_timestamp ts, l])"
  by (simp split: sum.splits)

lemma assign_timestamp:
  assumes "assign srv ty (Lit_timestamp ts) = Inr c"
  shows "ty = TIMESTAMPTZ \<and> c = instant srv ts"
  using assms by (cases ty) (simp_all add: instant_def)

lemma assign_columns:
  "collect (map (assign_column srv t) [(''timestamp'', Lit_timestamp ts), (''price_usd'', l)]) = Inr r
   \<longleftrightarrow> (\<exists>ty c. map_of (map (\<lambda>c. (col_name c, col_type c)) (columns t)) ''timestamp''
                  = Some TIMESTAMPTZ
          \<and> map_of (map (\<lambda>c. (col_name c, col_type c)) (columns t)) ''price_usd'' = Some ty
          \<and> assign srv ty l = Inr c
          \<and> r = [(''timestamp'', instant srv ts), (''price_usd'', c)])"
  by (auto simp: assign_column_def dest: assign_timestamp split: option.splits sum.splits)

lemma insert_result:
  assumes "exec_sql srv insert_stmt [PyTimestamp ts, PyJson v] db = Inr db'"
  obtains t c where "db ''bitcoin_price'' = Some t" "pk_columns t = [''timestamp'']"
    "db' = (if Some (instant srv ts) \<in> set (timestamps (rows t)) then db
            else db(''bitcoin_price'' \<mapsto>
              t\<lparr>rows := rows t @ [[(''timestamp'', instant srv ts), (''price_usd'', c)]]\<rparr>))"
proof -
  from assms obtain l where l: "adapt_json v = Inr l"
    by (cases "adapt_json v") (simp_all add: insert_stmt_def adapt_params)
  from assms l obtain t where t: "db ''bitcoin_price'' = Some t"
    by (cases "db ''bitcoin_price''") (simp_all add: insert_stmt_def adapt_params)
  from assms l t obtain r where
    r: "collect (map (assign_column srv t) [(''timestamp'', Lit_timestamp ts), (''price_usd'', l)])
          = Inr r"
    by (cases "collect (map (assign_column srv t)
          [(''timestamp'', Lit_timestamp ts), (''price_usd'', l)])")
      (simp_all add: insert_stmt_def adapt_params split: if_splits)
  then obtain c where c: "r = [(''timestamp'', instant srv ts), (''price_usd'', c)]"
    unfolding assign_columns by blast
  from assms l t r have pk: "pk_columns t = [''timestamp'']"
    by (simp add: insert_stmt_def adapt_params split: if_splits)
  have k: "row_key [''timestamp''] r = [Some (instant srv ts)]"
    by (simp add: c row_key_def)
  from assms l t r pk k key_conflict[of "instant srv ts" "rows t"]
  have "db' = (if Some (instant srv ts) \<in> set (timestamps (rows t)) then db
            else db(''bitcoin_price'' \<mapsto> t\<lparr>rows := rows t @ [r]\<rparr>))"
    by (simp add: insert_stmt_def adapt_params Let_def instant_def split: if_splits)
  then have "db' = (if Some (instant srv ts) \<in> set (timestamps (rows t)) then db
            else db(''bitcoin_price'' \<mapsto>
              t\<lparr>rows := rows t @ [[(''timestamp'', instant srv ts), (''price_usd'', c)]]\<rparr>))"
    by (simp only: c)
  with t pk show thesis
    by (rule that)
qed

lemma insert_eval:
  assumes "db ''bitcoin_price'' = Some t" and "columns t = bitcoin_price_columns"
  shows "exec_sql srv insert_stmt [PyTimestamp ts, PyJson v] db =
     (case price_cell srv v of
        Inl e \<Rightarrow> Inl e
      | Inr c \<Rightarrow>
          if Some (instant srv ts) \<in> set (timestamps (rows t)) then Inr db
          else Inr (db(''bitcoin_price'' \<mapsto>
            t\<lparr>rows := rows t @ [[(''timestamp'', instant srv ts), (''price_usd'', c)]]\<rparr>)))"
  using assms key_conflict[of "instant srv ts" "rows t"]
  by (simp add: insert_stmt_def adapt_params price_cell_def assign_column_def
      bitcoin_price_columns_def pk_columns_def row_key_def instant_def Let_def
      split: sum.splits)


lemma price_rows_insert:
  assumes "exec_sql srv insert_stmt [PyTimestamp ts, PyJson v] db = Inr db'"
  shows "price_rows db' = price_rows db \<or>
     (Some (instant srv ts) \<notin> set (timestamps (price_rows db))
      \<and> (\<exists>c. price_rows db' =
             price_rows db @ [[(''timestamp'', instant srv ts), (''price_usd'', c)]]))"
  by (rule insert_result[OF assms]) (auto simp: price_rows_def)

lemma insert_keeps_distinct:
  assumes "exec_sql srv insert_stmt [PyTimestamp ts, PyJson v] db = Inr db'"
    and "distinct (timestamps (price_rows db))"
  shows "distinct (timestamps (price_rows db'))"
  using price_rows_insert[OF assms(1)] assms(2) by (auto simp: timestamps_def)


lemma price_of_object:
  assumes "http_result env = Inr resp"
    and "decoded resp = Inr (JDict [(''bitcoin'', JDict [(''usd'', v)])])"
  shows "price_of env = Inr v"
  using assms by (simp add: price_of_def)


lemma create_existing:
  "db ''bitcoin_price'' = Some t \<Longrightarrow> exec_sql srv create_stmt ps db = Inr db"
  by (simp add: create_stmt_def)

lemma lookup_failures:
  assumes "http_result env = Inr resp" and "decoded resp = Inr data"
  shows "getitem data ''bitcoin'' = Inl e \<Longrightarrow> price_of env = Inl e"
    and "getitem data ''bitcoin'' = Inr bitcoin \<Longrightarrow> getitem bitcoin ''usd'' = Inl e \<Longrightarrow>
         price_of env = Inl e"
  using assms by (simp_all add: price_of_def)

lemma nearest_double_exact:
  assumes "\<bar>i\<bar> \<le> 2 ^ 53"
  shows "nearest_double i = i"
proof (cases "\<bar>i\<bar> = 2 ^ 53")
  case True
  have "bitlen 9007199254740992 = 54"
    by code_simp
  with True have "bitlen \<bar>i\<bar> = 54"
    by simp
  with True show ?thesis
    by (simp add: nearest_double_def Let_def) (simp add: abs_if sgn_if split: if_splits)
next
  case False
  with assms have "\<bar>i\<bar> < 2 ^ 53" by simp
  then have "bitlen \<bar>i\<bar> \<le> 53"
    by (simp add: bitlen_le_iff_power)
  then show ?thesis
    by (simp add: nearest_double_def Let_def abs_if sgn_if)
qed

lemma price_cell_float: "price_cell srv (JFloat x) = Inr (Float8 x)"
  by (simp add: price_cell_def)


lemma nearest_double_large: "nearest_double 9007199254740993 = 9007199254740992"
proof -
  have "bitlen 9007199254740993 = 54"
    by code_simp
  then show ?thesis
    by (simp add: nearest_double_def Let_def)
qed

subsection \<open>The calls of a run\<close>

lemma trace_prefix:
  assumes "script env (start db) = (r, w')"
  shows "\<exists>price. prefix (trace w') (planned env price)"
  using assms
proof (cases rule: script_cases[of env db])
  case (no_price e)
  with assms have "prefix (trace w') (planned env JNull)"
    by (auto simp: planned_def)
  then show ?thesis ..
qed (use assms in \<open>fastforce intro: take_is_prefix\<close>)+

subsection \<open>The example runs\<close>


lemma example_price: "price_of example_env = Inr (JFloat (Finite (130001 / 2)))"
  by (simp add: price_of_def example_env_def quote_def)

lemma example_captured: "captured example_env = noon"
  by (simp add: example_env_def noon_def)

lemma example_server: "server example_env = utc_server"
  by (simp add: example_env_def)

lemma noon_instant: "instant utc_server noon = Timestamptz 1714564800000000"
  by (simp add: instant_def utc_server_def microseconds_def noon_def)

lemma ensured_no_tables:
  "ensured no_tables =
     no_tables(''bitcoin_price'' \<mapsto> \<lparr>columns = bitcoin_price_columns, rows = []\<rparr>)"
  by (simp add: ensured_def no_tables_def)

lemma insert_first:
  assumes "price_cell utc_server v = Inr c"
  shows "exec_sql utc_server insert_stmt [PyTimestamp noon, PyJson v] (ensured no_tables) =
     Inr (no_tables(''bitcoin_price'' \<mapsto>
       \<lparr>columns = bitcoin_price_columns,
        rows = [[(''timestamp'', Timestamptz 1714564800000000), (''price_usd'', c)]]\<rparr>))"
  using assms
  by (simp add: ensured_no_tables
      insert_eval[of _ "\<lparr>columns = bitcoin_price_columns, rows = []\<rparr>"]
      noon_instant timestamps_def)

lemma example_insert:
  "exec_sql utc_server insert_stmt [PyTimestamp noon, PyJson (JFloat (Finite (130001 / 2)))]
     (ensured no_tables) = Inr first_sample"
  by (simp add: insert_first[OF price_cell_float] first_sample_def)

lemma large_cell:
  "price_cell utc_server (JInt 9007199254740993) = Inr (Float8 (Finite 9007199254740992))"
  by (simp add: price_cell_def nearest_double_large)

lemma large_insert:
  "exec_sql utc_server insert_stmt [PyTimestamp noon, PyJson (JInt 9007199254740993)]
     (ensured no_tables) = Inr large_sample"
  by (simp add: insert_first[OF large_cell] large_sample_def)

lemma example_run:
  "script example_env (start no_tables) =
     (Inr (), \<lparr>committed = first_sample, session = None,
        stdout = [''Inserted Bitcoin price 65000.5 USD at 2024-05-01 12:00:00''],
        stderr = [], trace = planned example_env (JFloat (Finite (130001 / 2)))\<rparr>)"
proof -
  have f: "fault example_env ev = None" for ev
    by (simp add: example_env_def no_fault_def)
  have c: "confirmation example_env (JFloat (Finite (130001 / 2))) noon
      = ''Inserted Bitcoin price 65000.5 USD at 2024-05-01 12:00:00''"
    by (simp add: confirmation_def example_env_def)
  have i: "exec_sql (server example_env) insert_stmt
      (insert_params example_env (JFloat (Finite (130001 / 2)))) (ensured no_tables)
      = Inr first_sample"
    using example_insert by (simp only: example_captured example_server)
  from run_success[of example_env "JFloat (Finite (130001 / 2))" no_tables first_sample,
      OF example_price f f f f i f f f f]
  show ?thesis
    by (simp only: example_captured c)
qed

lemma large_run:
  "script large_env (start no_tables) =
     (Inr (), \<lparr>committed = large_sample, session = None,
        stdout = [''Inserted Bitcoin price 9007199254740993 USD at 2024-05-01 12:00:00''],
        stderr = [], trace = planned large_env (JInt 9007199254740993)\<rparr>)"
proof -
  have p: "price_of large_env = Inr (JInt 9007199254740993)"
    by (simp add: price_of_def large_env_def large_quote_def)
  have f: "fault large_env ev = None" for ev
    by (simp add: large_env_def example_env_def no_fault_def)
  have t: "captured large_env = noon"
    by (simp add: large_env_def example_env_def noon_def)
  have s: "server large_env = utc_server"
    by (simp add: large_env_def example_env_def)
  have c: "confirmation large_env (JInt 9007199254740993) noon
      = ''Inserted Bitcoin price 9007199254740993 USD at 2024-05-01 12:00:00''"
    by (simp add: confirmation_def large_env_def)
  have i: "exec_sql (server large_env) insert_stmt
      (insert_params large_env (JInt 9007199254740993)) (ensured no_tables) = Inr large_sample"
    using large_insert by (simp only: t s)
  from run_success[of large_env "JInt 9007199254740993" no_tables large_sample,
      OF p f f f f i f f f f]
  show ?thesis
    by (simp only: t c)
qed

lemma unreachable_run:
  "script unreachable_env (start no_tables) =
     (Inl OperationalError, \<lparr>committed = no_tables, session = None, stdout = [], stderr = [],
        trace = [Http_get API_URL, Json_decode, Clock_read, Db_connect DB_SETTINGS]\<rparr>)"
proof -
  have p: "price_of unreachable_env = Inr (JFloat (Finite (130001 / 2)))"
    by (simp add: price_of_def unreachable_env_def example_env_def quote_def)
  have f: "fault unreachable_env (Db_connect DB_SETTINGS) = Some OperationalError"
    by (simp add: unreachable_env_def)
  from run_connect_fault[OF p f, of no_tables] show ?thesis
    by (simp add: planned_def)
qed

lemma denied_run:
  "script denied_env (start no_tables) =
     (Inl ProgrammingError,
      \<lparr>committed = no_tables, session = Some (ensured no_tables), stdout = [], stderr = [],
        trace = [Http_get API_URL, Json_decode, Clock_read, Db_connect DB_SETTINGS, Db_cursor,
          Db_execute create_stmt [],
          Db_execute insert_stmt [PyTimestamp noon, PyJson (JFloat (Finite (130001 / 2)))]]\<rparr>)"
proof -
  have p: "price_of denied_env = Inr (JFloat (Finite (130001 / 2)))"
    by (simp add: price_of_def denied_env_def example_env_def quote_def)
  have c: "captured denied_env = noon"
    by (simp add: denied_env_def example_env_def noon_def)
  have f: "fault denied_env (Db_connect DB_SETTINGS) = None" "fault denied_env Db_cursor = None"
    "fault denied_env (Db_execute create_stmt []) = None"
    "fault denied_env (Db_execute insert_stmt
        (insert_params denied_env (JFloat (Finite (130001 / 2))))) = Some ProgrammingError"
    by (simp_all add: denied_env_def create_stmt_def insert_stmt_def)
  from run_insert_fault[OF p f, of no_tables] show ?thesis
    by (simp add: planned_def c)
qed

subsection \<open>The cell of the price\<close>

lemma price_cell_values:
  assumes "price_cell srv v = Inr c"
  shows "(\<forall>x. v = JFloat x \<longrightarrow> c = Float8 x)
       \<and> (\<forall>i. v = JInt i \<longrightarrow> c = Float8 (Finite (of_int (nearest_double i))))
       \<and> (\<forall>i. v = JInt i \<and> \<bar>i\<bar> \<le> 2 ^ 53 \<longrightarrow> c = Float8 (Finite (of_int i)))"
  using assms by (auto simp: price_cell_def nearest_double_exact split: if_splits)


lemma ensured_shaped:
  assumes "\<forall>t. db ''bitcoin_price'' = Some t \<longrightarrow> columns t = bitcoin_price_columns"
  obtains t where "ensured db ''bitcoin_price'' = Some t" "columns t = bitcoin_price_columns"
    "rows t = price_rows db"
proof (cases "db ''bitcoin_price''")
  case None
  then show thesis
    using that[of "\<lparr>columns = bitcoin_price_columns, rows = []\<rparr>"]
    by (simp add: ensured_def price_rows_def)
next
  case (Some t)
  with assms show thesis
    using that[of t] by (simp add: ensured_def price_rows_def)
qed

lemma insert_fresh:
  assumes "\<forall>t. db ''bitcoin_price'' = Some t \<longrightarrow> columns t = bitcoin_price_columns"
    and "exec_sql srv insert_stmt [PyTimestamp ts, PyJson v] (ensured db) = Inr db'"
    and "Some (instant srv ts) \<notin> set (timestamps (price_rows db))"
  shows "\<exists>c. price_cell srv v = Inr c \<and> price_rows db' =
      price_rows db @ [[(''timestamp'', instant srv ts), (''price_usd'', c)]]"
proof -
  from assms(1) obtain t where t: "ensured db ''bitcoin_price'' = Some t"
    "columns t = bitcoin_price_columns" "rows t = price_rows db"
    by (rule ensured_shaped)
  from assms(2,3) t(3) show ?thesis
    by (auto simp: insert_eval[of "ensured db" t, OF t(1,2)] price_rows_def
        split: sum.splits)
qed

section \<open>The properties of the recorder\<close>

text \<open>
  C1 as stated, that the row has the price \<open>v\<close> without any rounding for every \<open>v\<close>, fails:
  the column is a double, and the quote 9007199254740993, an integer of 54 bits, is
  recorded as 9007199254740992.
\<close>

theorem price_rounded_counterexample:
  "price_of large_env = Inr (JInt 9007199254740993)
   \<and> price_rows (committed (snd (script large_env (start no_tables)))) =
       [[(''timestamp'', Timestamptz 1714564800000000),
         (''price_usd'', Float8 (Finite 9007199254740992))]]
   \<and> \<not> same_value (Float8 (Finite 9007199254740992)) (JInt 9007199254740993)"
proof -
  have "price_of large_env = Inr (JInt 9007199254740993)"
    by (simp add: price_of_def large_env_def large_quote_def)
  moreover have "price_rows (committed (snd (script large_env (start no_tables)))) =
       [[(''timestamp'', Timestamptz 1714564800000000),
         (''price_usd'', Float8 (Finite 9007199254740992))]]"
    by (simp add: large_run large_sample_def price_rows_def)
  ultimately show ?thesis
    by simp
qed

text \<open>
  C1, as amended. When the answer of the API parses to the object
  \<^verbatim>\<open>{"bitcoin": {"usd": v}}\<close>, the script binds \<open>v\<close> itself to the second parameter of
  every INSERT it sends, next to the timestamp it captured: it computes nothing from
  \<open>v\<close>. When the run succeeds on the table of the script's shape and no row has the
  instant of that timestamp yet, the table ends with one more row, whose \<^verbatim>\<open>price_usd\<close>
  is what the column of type \<^verbatim>\<open>FLOAT\<close> makes of \<open>v\<close>: \<open>v\<close> itself when it is a float,
  the double nearest to \<open>v\<close> when it is an integer, which is \<open>v\<close> itself up to \<open>2 ^ 53\<close>
  in absolute value.
\<close>

theorem price_recorded_as_double:
  assumes "http_result env = Inr resp"
    and "decoded resp = Inr (JDict [(''bitcoin'', JDict [(''usd'', v)])])"
    and "script env (start db) = (r, w')"
  shows "(\<forall>ps. Db_execute insert_stmt ps \<in> set (trace w') \<longrightarrow>
            ps = [PyTimestamp (captured env), PyJson v])
       \<and> (r = Inr ()
            \<and> (\<forall>t. db ''bitcoin_price'' = Some t \<longrightarrow> columns t = bitcoin_price_columns)
            \<and> Some (instant (server env) (captured env)) \<notin> set (timestamps (price_rows db)) \<longrightarrow>
            (\<exists>c. price_rows (committed w') = price_rows db @
                   [[(''timestamp'', instant (server env) (captured env)), (''price_usd'', c)]]
               \<and> price_cell (server env) v = Inr c
               \<and> (\<forall>x. v = JFloat x \<longrightarrow> c = Float8 x)
               \<and> (\<forall>i. v = JInt i \<longrightarrow> c = Float8 (Finite (of_int (nearest_double i))))
               \<and> (\<forall>i. v = JInt i \<and> \<bar>i\<bar> \<le> 2 ^ 53 \<longrightarrow> c = Float8 (Finite (of_int i)))))"
proof -
  have v: "price_of env = Inr v"
    using assms(1,2) by (rule price_of_object)
  from assms(3) v show ?thesis
  proof (cases rule: script_cases[of env db])
    case (success price db')
    have "\<exists>c. price_rows db' = price_rows db @
                   [[(''timestamp'', instant (server env) (captured env)), (''price_usd'', c)]]
               \<and> price_cell (server env) v = Inr c
               \<and> (\<forall>x. v = JFloat x \<longrightarrow> c = Float8 x)
               \<and> (\<forall>i. v = JInt i \<longrightarrow> c = Float8 (Finite (of_int (nearest_double i))))
               \<and> (\<forall>i. v = JInt i \<and> \<bar>i\<bar> \<le> 2 ^ 53 \<longrightarrow> c = Float8 (Finite (of_int i)))"
      if "\<forall>t. db ''bitcoin_price'' = Some t \<longrightarrow> columns t = bitcoin_price_columns"
        and "Some (instant (server env) (captured env)) \<notin> set (timestamps (price_rows db))"
    proof -
      from success(1,6) v have "exec_sql (server env) insert_stmt
          [PyTimestamp (captured env), PyJson v] (ensured db) = Inr db'"
        by simp
      from insert_fresh[OF that(1) this that(2)] obtain c where
        c: "price_cell (server env) v = Inr c" "price_rows db' = price_rows db @
          [[(''timestamp'', instant (server env) (captured env)), (''price_usd'', c)]]"
        by blast
      from c price_cell_values[OF c(1)] show ?thesis
        by blast
    qed
    with assms(3) success(1,11) v show ?thesis
      by (auto simp: planned_def)
  qed (auto simp: planned_def split: if_splits)
qed

theorem price_recorded_as_double_witness:
  "http_result example_env = Inr \<lparr>status_code = 200, decoded = Inr quote\<rparr>
   \<and> quote = JDict [(''bitcoin'', JDict [(''usd'', JFloat (Finite (130001 / 2)))])]
   \<and> price_rows (committed (snd (script example_env (start no_tables)))) =
       [[(''timestamp'', Timestamptz 1714564800000000),
         (''price_usd'', Float8 (Finite (130001 / 2)))]]"
proof -
  have h1: "http_result example_env = Inr \<lparr>status_code = 200, decoded = Inr quote\<rparr>"
    by (simp add: example_env_def)
  have h2: "decoded \<lparr>status_code = 200, decoded = Inr quote\<rparr> =
      Inr (JDict [(''bitcoin'', JDict [(''usd'', JFloat (Finite (130001 / 2)))])])"
    by (simp add: quote_def)
  have h3: "price_rows no_tables = []" "\<forall>t. no_tables ''bitcoin_price'' \<noteq> Some t"
    by (simp_all add: price_rows_def no_tables_def)
  have h4: "timestamps [] = []"
    by (simp add: timestamps_def)
  from price_recorded_as_double[OF h1 h2 example_run] h1 h3 h4 show ?thesis
    by (auto simp: example_captured example_server noon_instant example_run quote_def)
qed




text \<open>
  C3. When the body decodes to an object without the key \<^verbatim>\<open>bitcoin\<close>, or with an
  object under \<^verbatim>\<open>bitcoin\<close> that has no key \<^verbatim>\<open>usd\<close>, the process ends with status 1
  and the \<^verbatim>\<open>KeyError\<close> of the missing key on standard error. The only calls made are
  the HTTP request and the decoding: no connection, no statement, no row, no output.
\<close>

theorem missing_key_aborts:
  assumes "http_result env = Inr resp" and "decoded resp = Inr (JDict kvs)"
    and "map_of kvs ''bitcoin'' = None \<or>
         (\<exists>kvs'. map_of kvs ''bitcoin'' = Some (JDict kvs') \<and> map_of kvs' ''usd'' = None)"
  shows "python_main env (start db) =
     (1, \<lparr>committed = db, session = None, stdout = [],
          stderr = [KeyError (if map_of kvs ''bitcoin'' = None then ''bitcoin'' else ''usd'')],
          trace = [Http_get API_URL, Json_decode]\<rparr>)"
proof -
  have "price_of env =
      Inl (KeyError (if map_of kvs ''bitcoin'' = None then ''bitcoin'' else ''usd''))"
    using assms by (auto simp: price_of_def)
  from run_no_price[OF this, of db] assms(1) show ?thesis
    by (simp add: python_main_def)
qed

theorem missing_key_aborts_witness:
  "map_of rate_limit_message ''bitcoin'' = None
   \<and> python_main rate_limited_env (start no_tables) =
       (1, \<lparr>committed = no_tables, session = None, stdout = [],
            stderr = [KeyError ''bitcoin''], trace = [Http_get API_URL, Json_decode]\<rparr>)"
proof -
  have h1: "http_result rate_limited_env =
      Inr \<lparr>status_code = 429, decoded = Inr (JDict rate_limit_message)\<rparr>"
    by (simp add: rate_limited_env_def)
  have h2: "decoded \<lparr>status_code = 429, decoded = Inr (JDict rate_limit_message)\<rparr> =
      Inr (JDict rate_limit_message)"
    by simp
  have h3: "map_of rate_limit_message ''bitcoin'' = None"
    by (simp add: rate_limit_message_def)
  then have h4: "map_of rate_limit_message ''bitcoin'' = None \<or>
      (\<exists>kvs'. map_of rate_limit_message ''bitcoin'' = Some (JDict kvs')
         \<and> map_of kvs' ''usd'' = None)"
    by simp
  from missing_key_aborts[OF h1 h2 h4, of no_tables] h3 show ?thesis
    by simp
qed

text \<open>
  C4. When the connection to the database is refused, the process ends with status 1,
  the database is as it was and nothing is on standard output. The run starts with the
  HTTP request, sends no statement and never reaches the print. When the run gets as
  far as the connection attempt, that attempt is its last call and its exception is
  the one reported.
\<close>

theorem connection_failure_aborts:
  assumes "fault env (Db_connect DB_SETTINGS) = Some e"
    and "python_main env (start db) = (code, w')"
  shows "code = 1 \<and> committed w' = db \<and> stdout w' = []
       \<and> hd (trace w') = Http_get API_URL
       \<and> (\<forall>q ps. Db_execute q ps \<notin> set (trace w'))
       \<and> (\<forall>line. Stdout_write line \<notin> set (trace w'))
       \<and> (Db_connect DB_SETTINGS \<in> set (trace w') \<longrightarrow>
            trace w' = [Http_get API_URL, Json_decode, Clock_read, Db_connect DB_SETTINGS]
            \<and> stderr w' = [e])"
  using assms
  by (cases rule: script_cases[of env db])
    (auto simp: python_main_def planned_def split: if_splits)

theorem connection_failure_aborts_witness:
  "fault unreachable_env (Db_connect DB_SETTINGS) = Some OperationalError
   \<and> fst (python_main unreachable_env (start no_tables)) = 1
   \<and> committed (snd (python_main unreachable_env (start no_tables))) = no_tables
   \<and> stdout (snd (python_main unreachable_env (start no_tables))) = []
   \<and> stderr (snd (python_main unreachable_env (start no_tables))) = [OperationalError]"
proof -
  have h1: "fault unreachable_env (Db_connect DB_SETTINGS) = Some OperationalError"
    by (simp add: unreachable_env_def)
  have h2: "python_main unreachable_env (start no_tables) =
      (fst (python_main unreachable_env (start no_tables)),
       snd (python_main unreachable_env (start no_tables)))"
    by simp
  have h3: "Db_connect DB_SETTINGS
      \<in> set (trace (snd (python_main unreachable_env (start no_tables))))"
    by (simp add: python_main_def unreachable_run)
  from connection_failure_aborts[OF h1 h2] h1 h3 show ?thesis
    by simp
qed

text \<open>
  C5 as stated, that the timestamp captured is timezone-aware, fails: in the example run
  the timestamp bound to the INSERT is the reading of the clock with no zone attached.
\<close>

theorem captured_timestamp_aware_counterexample:
  "Db_execute insert_stmt [PyTimestamp noon, PyJson (JFloat (Finite (130001 / 2)))]
     \<in> set (trace (snd (script example_env (start no_tables))))
   \<and> \<not> tz_aware noon"
  by (simp add: example_run planned_def example_captured) (simp add: tz_aware_def noon_def)

text \<open>
  C5, as amended. The timestamp that the script captures has no time zone attached: it
  is the reading of the local wall clock, since \<^verbatim>\<open>pd.Timestamp.now()\<close> is called
  without a zone. It is bound to the first parameter of the INSERT. The column that
  receives it is the primary key of the table: a run succeeds only on a table whose
  primary key is \<^verbatim>\<open>timestamp\<close>, a table that the script creates has that column
  declared \<^verbatim>\<open>TIMESTAMPTZ PRIMARY KEY\<close>, and a successful run keeps the timestamps of
  the rows distinct.
\<close>

theorem captured_timestamp_naive_primary_key:
  assumes "script env (start db) = (r, w')"
  shows "(\<forall>ps. Db_execute insert_stmt ps \<in> set (trace w') \<longrightarrow>
            (\<exists>ts price. ps = [PyTimestamp ts, PyJson price] \<and> \<not> tz_aware ts
               \<and> wall_ns ts = wall_clock env None))
       \<and> (r = Inr () \<longrightarrow>
            (\<exists>t. committed w' ''bitcoin_price'' = Some t \<and> pk_columns t = [''timestamp'']))
       \<and> (r = Inr () \<and> db ''bitcoin_price'' = None \<longrightarrow>
            (\<exists>t. committed w' ''bitcoin_price'' = Some t
               \<and> map (\<lambda>c. (col_name c, col_type c, primary_key c)) (columns t) =
                   [(''timestamp'', TIMESTAMPTZ, True), (''price_usd'', FLOAT, False)]))
       \<and> (r = Inr () \<and> distinct (timestamps (price_rows db)) \<longrightarrow>
            distinct (timestamps (price_rows (committed w'))))"
  using assms
proof (cases rule: script_cases[of env db])
  case (success price db')
  from success(6) obtain t c where t: "ensured db ''bitcoin_price'' = Some t"
    "pk_columns t = [''timestamp'']"
    "db' = (if Some (instant (server env) (captured env)) \<in> set (timestamps (rows t))
            then ensured db
            else (ensured db)(''bitcoin_price'' \<mapsto>
              t\<lparr>rows := rows t @ [[(''timestamp'', instant (server env) (captured env)),
                                    (''price_usd'', c)]]\<rparr>))"
    by (rule insert_result)
  have d: "distinct (timestamps (price_rows db)) \<Longrightarrow> distinct (timestamps (price_rows db'))"
    using insert_keeps_distinct[OF success(6)] by simp
  have fresh: "columns t = bitcoin_price_columns" if "db ''bitcoin_price'' = None"
    using t(1) that by (auto simp: ensured_def)
  from assms success(11) t d fresh show ?thesis
    by (auto simp: planned_def tz_aware_def pk_columns_def bitcoin_price_columns_def)
qed (auto simp: planned_def tz_aware_def split: if_splits)

theorem captured_timestamp_naive_primary_key_witness:
  "fst (script example_env (start no_tables)) = Inr ()
   \<and> no_tables ''bitcoin_price'' = None
   \<and> (\<exists>t. committed (snd (script example_env (start no_tables))) ''bitcoin_price'' = Some t
        \<and> pk_columns t = [''timestamp'']
        \<and> map (\<lambda>c. (col_name c, col_type c, primary_key c)) (columns t) =
             [(''timestamp'', TIMESTAMPTZ, True), (''price_usd'', FLOAT, False)])"
proof -
  have h: "no_tables ''bitcoin_price'' = None"
    by (simp add: no_tables_def)
  from captured_timestamp_naive_primary_key[OF example_run] h show ?thesis
    by (auto simp: example_run)
qed

text \<open>
  C6. The calls of every run are a beginning of the fixed sequence fetch, parse,
  timestamp capture, connect, open cursor, ensure schema, insert, commit, close cursor,
  close connection, print, and of all of it when the run succeeds; without the cursor
  and the two closes that is the order fetch, parse, timestamp capture, connect,
  ensure schema, insert, commit, print. The clock is read third, after a response was
  received and decoded, and the timestamp of the INSERT is the reading of the local
  clock whatever the response holds.
\<close>

theorem steps_in_fixed_order:
  assumes "script env (start db) = (r, w')"
  shows "prefix (map step_of (trace w')) step_order
       \<and> (r = Inr () \<longrightarrow> map step_of (trace w') = step_order)
       \<and> (r = Inr () \<longrightarrow>
            filter (\<lambda>s. s \<notin> {Open_cursor, Close_cursor, Close_connection})
              (map step_of (trace w')) =
            [Fetch, Parse, Capture_timestamp, Connect, Ensure_schema, Insert, Commit, Print])
       \<and> (Clock_read \<in> set (trace w') \<longrightarrow>
            take 3 (trace w') = [Http_get API_URL, Json_decode, Clock_read]
            \<and> (\<exists>resp data. http_result env = Inr resp \<and> decoded resp = Inr data))
       \<and> (\<forall>ps. Db_execute insert_stmt ps \<in> set (trace w') \<longrightarrow>
             hd ps = PyTimestamp \<lparr>wall_ns = wall_clock env None, tzinfo = None\<rparr>)"
  using assms
  by (cases rule: script_cases[of env db])
    (auto simp: planned_def step_order_def elim: price_ofD split: if_splits)

theorem steps_in_fixed_order_witness:
  "map step_of (trace (snd (script example_env (start no_tables)))) = step_order
   \<and> take 3 (trace (snd (script example_env (start no_tables)))) =
       [Http_get API_URL, Json_decode, Clock_read]"
proof -
  have h: "Clock_read \<in> set (planned example_env (JFloat (Finite (130001 / 2))))"
    by (simp add: planned_def)
  from steps_in_fixed_order[OF example_run] h show ?thesis
    by (simp add: example_run)
qed

text \<open>
  C7. On a database where the table \<^verbatim>\<open>bitcoin_price\<close> exists, the CREATE TABLE IF NOT
  EXISTS of the script, sent any number of times, raises nothing and returns the
  database as it was. This holds whatever the columns of the existing table are, so in
  particular for the table of the right shape.
\<close>

theorem create_table_idempotent:
  assumes "db ''bitcoin_price'' = Some t"
  shows "exec_times srv n create_stmt [] db = Inr db"
  using assms by (induction n) (simp_all add: create_existing[of db t srv])

theorem create_table_idempotent_witness:
  "recorded ''bitcoin_price'' = Some recorded_table
   \<and> exec_times utc_server 3 create_stmt [] recorded = Inr recorded"
proof -
  have h1: "recorded ''bitcoin_price'' = Some recorded_table"
    by (simp add: recorded_def)
  from create_table_idempotent[of recorded recorded_table utc_server 3, OF h1] h1 show ?thesis
    by simp
qed

text \<open>
  C8. An exception of the script ends the process with status 1, is written to standard
  error and leaves standard output empty; a run without one ends with status 0 and
  exactly one line on standard output. Every failure is such an exception: of the
  request, of the decoding, of either lookup, of any attempted call on the database or
  the output that the environment lets fail, and of the INSERT that the server rejects.
\<close>

theorem no_exception_caught:
  "(case script env (start db) of
      (Inl e, w') \<Rightarrow>
         python_main env (start db) = (1, w'\<lparr>session := None, stderr := [e]\<rparr>)
         \<and> stdout w' = []
    | (Inr u, w') \<Rightarrow>
         python_main env (start db) = (0, w'\<lparr>session := None\<rparr>)
         \<and> length (stdout w') = 1 \<and> stderr w' = [])
   \<and> (\<forall>e. http_result env = Inl e \<longrightarrow> fst (script env (start db)) = Inl e)
   \<and> (\<forall>resp e. http_result env = Inr resp \<and> decoded resp = Inl e \<longrightarrow>
          fst (script env (start db)) = Inl e)
   \<and> (\<forall>resp data e. http_result env = Inr resp \<and> decoded resp = Inr data
          \<and> getitem data ''bitcoin'' = Inl e \<longrightarrow> fst (script env (start db)) = Inl e)
   \<and> (\<forall>resp data bitcoin e. http_result env = Inr resp \<and> decoded resp = Inr data
          \<and> getitem data ''bitcoin'' = Inr bitcoin \<and> getitem bitcoin ''usd'' = Inl e \<longrightarrow>
          fst (script env (start db)) = Inl e)
   \<and> (\<forall>ev e. ev \<in> set (trace (snd (script env (start db)))) \<and> may_fault ev
          \<and> fault env ev = Some e \<longrightarrow> fst (script env (start db)) = Inl e)
   \<and> (\<forall>price e. price_of env = Inr price
          \<and> Db_execute insert_stmt (insert_params env price)
               \<in> set (trace (snd (script env (start db))))
          \<and> fault env (Db_execute insert_stmt (insert_params env price)) = None
          \<and> exec_sql (server env) insert_stmt (insert_params env price) (ensured db) = Inl e \<longrightarrow>
          fst (script env (start db)) = Inl e)"
proof (intro conjI allI impI; (elim conjE)?)
  show "case script env (start db) of
      (Inl e, w') \<Rightarrow>
         python_main env (start db) = (1, w'\<lparr>session := None, stderr := [e]\<rparr>)
         \<and> stdout w' = []
    | (Inr u, w') \<Rightarrow>
         python_main env (start db) = (0, w'\<lparr>session := None\<rparr>)
         \<and> length (stdout w') = 1 \<and> stderr w' = []"
    by (cases rule: script_cases[of env db]) (simp_all add: python_main_def)
next
  fix e assume "http_result env = Inl e"
  then have "price_of env = Inl e" by (simp add: price_of_def)
  then show "fst (script env (start db)) = Inl e" by (simp add: run_no_price)
next
  fix resp e assume "http_result env = Inr resp" "decoded resp = Inl e"
  then have "price_of env = Inl e" by (simp add: price_of_def)
  then show "fst (script env (start db)) = Inl e" by (simp add: run_no_price)
next
  fix resp data e
  assume "http_result env = Inr resp" "decoded resp = Inr data"
    "getitem data ''bitcoin'' = Inl e"
  then have "price_of env = Inl e" by (rule lookup_failures(1))
  then show "fst (script env (start db)) = Inl e" by (simp add: run_no_price)
next
  fix resp data bitcoin e
  assume "http_result env = Inr resp" "decoded resp = Inr data"
    "getitem data ''bitcoin'' = Inr bitcoin" "getitem bitcoin ''usd'' = Inl e"
  then have "price_of env = Inl e" by (rule lookup_failures(2))
  then show "fst (script env (start db)) = Inl e" by (simp add: run_no_price)
next
  fix ev e
  assume "ev \<in> set (trace (snd (script env (start db))))" "may_fault ev" "fault env ev = Some e"
  then show "fst (script env (start db)) = Inl e"
    by (cases rule: script_cases[of env db]) (auto simp: planned_def split: if_splits)
next
  fix price e
  assume "price_of env = Inr price"
    "Db_execute insert_stmt (insert_params env price) \<in> set (trace (snd (script env (start db))))"
    "fault env (Db_execute insert_stmt (insert_params env price)) = None"
    "exec_sql (server env) insert_stmt (insert_params env price) (ensured db) = Inl e"
  then show "fst (script env (start db)) = Inl e"
    by (cases rule: script_cases[of env db]) (auto simp: planned_def split: if_splits)
qed

theorem no_exception_caught_witness:
  "fst (script unreachable_env (start no_tables)) = Inl OperationalError
   \<and> python_main unreachable_env (start no_tables) =
       (1, \<lparr>committed = no_tables, session = None, stdout = [], stderr = [OperationalError],
          trace = [Http_get API_URL, Json_decode, Clock_read, Db_connect DB_SETTINGS]\<rparr>)
   \<and> python_main example_env (start no_tables) =
       (0, \<lparr>committed = first_sample, session = None,
          stdout = [''Inserted Bitcoin price 65000.5 USD at 2024-05-01 12:00:00''],
          stderr = [], trace = planned example_env (JFloat (Finite (130001 / 2)))\<rparr>)"
proof -
  have f: "fault unreachable_env (Db_connect DB_SETTINGS) = Some OperationalError"
    by (simp add: unreachable_env_def)
  from no_exception_caught[of unreachable_env no_tables]
    no_exception_caught[of example_env no_tables] f
  show ?thesis
    by (simp add: unreachable_run example_run)
qed

text \<open>
  C9. The calls of a run are a beginning of the planned sequence, which has one
  connection, the two statements on it and one commit after both. A run that raises
  without having reached the commit leaves the committed database as it was, and so
  does the end of the process, which drops the connection: neither the table nor the
  row of that run is there.
\<close>

theorem error_before_commit_leaves_database:
  assumes "script env (start db) = (r, w')"
  shows "(\<exists>price. prefix (trace w') (planned env price))
       \<and> (r \<noteq> Inr () \<and> Db_commit \<notin> set (trace w') \<longrightarrow>
            committed w' = db
            \<and> committed (snd (python_main env (start db))) = db
            \<and> session (snd (python_main env (start db))) = None)"
proof
  show "\<exists>price. prefix (trace w') (planned env price)"
    using assms by (rule trace_prefix)
  show "r \<noteq> Inr () \<and> Db_commit \<notin> set (trace w') \<longrightarrow>
            committed w' = db
            \<and> committed (snd (python_main env (start db))) = db
            \<and> session (snd (python_main env (start db))) = None"
    using assms
    by (cases rule: script_cases[of env db])
      (auto simp: python_main_def planned_def split: if_splits)
qed

theorem error_before_commit_leaves_database_witness:
  "fst (script denied_env (start no_tables)) = Inl ProgrammingError
   \<and> Db_commit \<notin> set (trace (snd (script denied_env (start no_tables))))
   \<and> session (snd (script denied_env (start no_tables))) = Some (ensured no_tables)
   \<and> ensured no_tables ''bitcoin_price'' = Some \<lparr>columns = bitcoin_price_columns, rows = []\<rparr>
   \<and> committed (snd (python_main denied_env (start no_tables))) = no_tables
   \<and> session (snd (python_main denied_env (start no_tables))) = None"
proof -
  have h: "Db_commit \<notin> set (trace (snd (script denied_env (start no_tables))))"
    by (simp add: denied_run insert_stmt_def create_stmt_def)
  from error_before_commit_leaves_database[OF denied_run] h show ?thesis
    by (simp add: denied_run ensured_no_tables)
qed

text \<open>
  C10. When a run has written to standard output, it has raised nothing, all eleven
  calls were made in order and the print was the last of them; the commit, the close
  of the cursor and the close of the connection did not fail, the connection is closed,
  and the committed database is the result of the two statements of the run. The line
  written is the confirmation for the price and the timestamp of that INSERT.
\<close>

theorem confirmation_implies_committed:
  assumes "script env (start db) = (r, w')" and "stdout w' \<noteq> []"
  shows "r = Inr () \<and> map step_of (trace w') = step_order
       \<and> last (trace w') = Stdout_write (hd (stdout w'))
       \<and> fault env Db_commit = None \<and> fault env Cursor_close = None
       \<and> fault env Conn_close = None \<and> session w' = None
       \<and> (\<exists>price. price_of env = Inr price
            \<and> exec_sql (server env) create_stmt [] db = Inr (ensured db)
            \<and> exec_sql (server env) insert_stmt (insert_params env price) (ensured db)
                = Inr (committed w')
            \<and> stdout w' = [confirmation env price (captured env)])"
  using assms
  by (cases rule: script_cases[of env db])
    (auto simp: planned_def step_order_def exec_create)

theorem confirmation_implies_committed_witness:
  "stdout (snd (script example_env (start no_tables))) \<noteq> []
   \<and> fst (script example_env (start no_tables)) = Inr ()
   \<and> exec_sql utc_server insert_stmt [PyTimestamp noon, PyJson (JFloat (Finite (130001 / 2)))]
       (ensured no_tables) = Inr (committed (snd (script example_env (start no_tables))))"
proof -
  have h1: "script example_env (start no_tables) =
      (fst (script example_env (start no_tables)), snd (script example_env (start no_tables)))"
    by simp
  have h2: "stdout (snd (script example_env (start no_tables))) \<noteq> []"
    by (simp add: example_run)
  from confirmation_implies_committed[OF h1 h2] h2 show ?thesis
    by (simp add: example_price example_captured example_server)
qed

end
